theory Spec2Isabelle
  imports Main "HOL-Library.Word"
begin

section \<open>Python values used by the scripts\<close>

text \<open>
  Text is a HOL \<open>string\<close> (code points below 256), a \<open>bytes\<close> object is a list of
  8-bit words, Python's \<open>int\<close> is \<open>int\<close>. A decoded JSON document is a \<open>json\<close>
  value; a JSON object is an association list in insertion order (Python dicts keep
  it), its keys distinct. A non-integer number is carried as the text Python's
  \<open>repr\<close> gives it, since floating point itself is outside this development.
\<close>

type_synonym byte = "8 word"

datatype json =
    JNull
  | JBool bool
  | JInt int
  | JFloat string
  | JStr string
  | JList "json list"
  | JObj "(string \<times> json) list"

text \<open>
  The exception classes that occur, with the part of Python's class hierarchy that
  the \<open>except\<close> clauses of the scripts look at. \<open>SystemExit\<close> is what
  \<open>sys.exit\<close> raises; it and \<open>KeyboardInterrupt\<close> are not subclasses of
  \<open>Exception\<close>. The exceptions of the \<open>requests\<close> library all derive from
  \<open>RequestException\<close>; its \<open>JSONDecodeError\<close> is also a \<open>ValueError\<close>.
\<close>

datatype exc_class =
    KeyboardInterrupt
  | OSError | FileNotFoundError | PermissionError
  | EOFError
  | ValueError | BinasciiError | JSONDecodeError
  | TypeError | KeyError | AttributeError | UnboundLocalError
  | RequestException | ConnectionError | SSLError | Timeout | HTTPError
  | RequestsJSONDecodeError

datatype exc = Exc exc_class string | SystemExit nat

fun is_Exception :: "exc \<Rightarrow> bool" where
  "is_Exception (SystemExit n) = False"
| "is_Exception (Exc c m) = (c \<noteq> KeyboardInterrupt)"

fun is_ValueError :: "exc \<Rightarrow> bool" where
  "is_ValueError (SystemExit n) = False"
| "is_ValueError (Exc c m) = (c \<in> {ValueError, BinasciiError, JSONDecodeError, RequestsJSONDecodeError})"

fun is_RequestException :: "exc \<Rightarrow> bool" where
  "is_RequestException (SystemExit n) = False"
| "is_RequestException (Exc c m) =
     (c \<in> {RequestException, ConnectionError, SSLError, Timeout, HTTPError, RequestsJSONDecodeError})"

text \<open>A connectivity error: the transport failures of \<open>requests\<close> (DNS and refused
  connections are \<open>ConnectionError\<close>, a failed handshake is \<open>SSLError\<close>).\<close>

fun is_connectivity_error :: "exc \<Rightarrow> bool" where
  "is_connectivity_error (SystemExit n) = False"
| "is_connectivity_error (Exc c m) = (c \<in> {ConnectionError, SSLError, Timeout})"

fun is_filesystem_error :: "exc \<Rightarrow> bool" where
  "is_filesystem_error (SystemExit n) = False"
| "is_filesystem_error (Exc c m) = (c \<in> {FileNotFoundError, PermissionError})"

text \<open>\<open>str(e)\<close>.\<close>

fun str_nat :: "nat \<Rightarrow> string" where
  "str_nat n =
     (if n < 10 then [''0123456789'' ! n]
      else str_nat (n div 10) @ [''0123456789'' ! (n mod 10)])"

declare str_nat.simps [simp del]

definition str_int :: "int \<Rightarrow> string" where
  "str_int i = (if i < 0 then ''-'' @ str_nat (nat (- i)) else str_nat (nat i))"

fun str_exc :: "exc \<Rightarrow> string" where
  "str_exc (Exc c m) = m"
| "str_exc (SystemExit n) = str_nat n"

definition nl :: string where
  "nl = [CHR 0x0A]"

subsection \<open>Truthiness, type names, dictionary access\<close>

fun truthy :: "json \<Rightarrow> bool" where
  "truthy JNull = False"
| "truthy (JBool b) = b"
| "truthy (JInt i) = (i \<noteq> 0)"
| "truthy (JFloat r) = (r \<noteq> ''0.0'' \<and> r \<noteq> ''-0.0'')"
| "truthy (JStr s) = (s \<noteq> [])"
| "truthy (JList xs) = (xs \<noteq> [])"
| "truthy (JObj kvs) = (kvs \<noteq> [])"

fun type_name :: "json \<Rightarrow> string" where
  "type_name JNull = ''NoneType''"
| "type_name (JBool b) = ''bool''"
| "type_name (JInt i) = ''int''"
| "type_name (JFloat r) = ''float''"
| "type_name (JStr s) = ''str''"
| "type_name (JList xs) = ''list''"
| "type_name (JObj kvs) = ''dict''"

text \<open>A text between apostrophes, as error messages quote names.\<close>

definition quoted :: "string \<Rightarrow> string" where
  "quoted s = [CHR 0x27] @ s @ [CHR 0x27]"

text \<open>\<open>x.get(k, d)\<close>: only a dict has the method.\<close>

fun dict_get :: "json \<Rightarrow> string \<Rightarrow> json \<Rightarrow> exc + json" where
  "dict_get (JObj kvs) k d = Inr (case map_of kvs k of None \<Rightarrow> d | Some v \<Rightarrow> v)"
| "dict_get x k d =
     Inl (Exc AttributeError
       (quoted (type_name x) @ '' object has no attribute '' @ quoted ''get''))"

text \<open>\<open>x[k]\<close> with a string key \<open>k\<close>. The message of a \<open>KeyError\<close> is the
  \<open>repr\<close> of the key; the keys used here need no escaping.\<close>

fun subscript :: "json \<Rightarrow> string \<Rightarrow> exc + json" where
  "subscript (JObj kvs) k =
     (case map_of kvs k of
        None \<Rightarrow> Inl (Exc KeyError (quoted k))
      | Some v \<Rightarrow> Inr v)"
| "subscript (JList xs) k =
     Inl (Exc TypeError ''list indices must be integers or slices, not str'')"
| "subscript (JStr s) k =
     Inl (Exc TypeError (''string indices must be integers, not '' @ quoted ''str''))"
| "subscript x k =
     Inl (Exc TypeError (quoted (type_name x) @ '' object is not subscriptable''))"

text \<open>\<open>d[k] = v\<close> on a dict: an existing key keeps its place, a new one goes last.\<close>

fun dict_set :: "(string \<times> json) list \<Rightarrow> string \<Rightarrow> json \<Rightarrow> (string \<times> json) list" where
  "dict_set [] k v = [(k, v)]"
| "dict_set (p # ps) k v = (if fst p = k then (k, v) # ps else p # dict_set ps k v)"

subsection \<open>Formatting: \<open>str\<close>, \<open>repr\<close> and \<open>json.dumps\<close>\<close>

definition hex2 :: "nat \<Rightarrow> string" where
  "hex2 n = [''0123456789abcdef'' ! (n div 16 mod 16), ''0123456789abcdef'' ! (n mod 16)]"

text \<open>\<open>sep.join(xs)\<close>.\<close>

fun join :: "string \<Rightarrow> string list \<Rightarrow> string" where
  "join sep [] = []"
| "join sep [x] = x"
| "join sep (x # y # ys) = x @ sep @ join sep (y # ys)"

text \<open>\<open>repr\<close> of a text: between apostrophes, or between double quotes when the text
  has an apostrophe and no double quote; the quote and the backslash are escaped,
  control characters and the unprintable ones are written \<open>\xhh\<close>.\<close>

definition repr_char :: "char \<Rightarrow> char \<Rightarrow> string" where
  "repr_char q c =
     (let n = (of_char c :: nat) in
      if c = q \<or> c = CHR 0x5C then [CHR 0x5C, c]
      else if n = 9 then [CHR 0x5C, CHR ''t'']
      else if n = 10 then [CHR 0x5C, CHR ''n'']
      else if n = 13 then [CHR 0x5C, CHR ''r'']
      else if n < 32 \<or> n = 127 then [CHR 0x5C, CHR ''x''] @ hex2 n
      else if n < 127 then [c]
      else if n \<le> 160 \<or> n = 173 then [CHR 0x5C, CHR ''x''] @ hex2 n
      else [c])"

definition repr_str :: "string \<Rightarrow> string" where
  "repr_str s =
     (let q = (if CHR 0x27 \<in> set s \<and> CHR 0x22 \<notin> set s then CHR 0x22 else CHR 0x27)
      in [q] @ concat (map (repr_char q) s) @ [q])"

text \<open>\<open>repr(x)\<close> and \<open>str(x)\<close> of a decoded JSON value; an f-string field
  \<open>{x}\<close> is \<open>str(x)\<close>.\<close>

fun py_repr :: "json \<Rightarrow> string" where
  "py_repr JNull = ''None''"
| "py_repr (JBool b) = (if b then ''True'' else ''False'')"
| "py_repr (JInt i) = str_int i"
| "py_repr (JFloat r) = r"
| "py_repr (JStr s) = repr_str s"
| "py_repr (JList xs) = ''['' @ join '', '' (map py_repr xs) @ '']''"
| "py_repr (JObj kvs) =
     ''{'' @ join '', '' (map (\<lambda>p. repr_str (fst p) @ '': '' @ py_repr (snd p)) kvs) @ ''}''"

fun py_str :: "json \<Rightarrow> string" where
  "py_str (JStr s) = s"
| "py_str x = py_repr x"

text \<open>\<open>json.dumps(x)\<close> with its defaults: \<open>ensure_ascii\<close>, separators
  \<open>", "\<close> and \<open>": "\<close>.\<close>

definition json_esc :: "char \<Rightarrow> string" where
  "json_esc c =
     (let n = (of_char c :: nat) in
      if c = CHR 0x22 then [CHR 0x5C, CHR 0x22]
      else if c = CHR 0x5C then [CHR 0x5C, CHR 0x5C]
      else if n = 10 then [CHR 0x5C, CHR ''n'']
      else if n = 13 then [CHR 0x5C, CHR ''r'']
      else if n = 9 then [CHR 0x5C, CHR ''t'']
      else if n = 8 then [CHR 0x5C, CHR ''b'']
      else if n = 12 then [CHR 0x5C, CHR ''f'']
      else if n < 32 \<or> 126 < n then [CHR 0x5C, CHR ''u'', CHR ''0'', CHR ''0''] @ hex2 n
      else [c])"

definition json_string :: "string \<Rightarrow> string" where
  "json_string s = [CHR 0x22] @ concat (map json_esc s) @ [CHR 0x22]"

fun json_dumps :: "json \<Rightarrow> string" where
  "json_dumps JNull = ''null''"
| "json_dumps (JBool b) = (if b then ''true'' else ''false'')"
| "json_dumps (JInt i) = str_int i"
| "json_dumps (JFloat r) =
     (if r = ''nan'' then ''NaN'' else if r = ''inf'' then ''Infinity''
      else if r = ''-inf'' then ''-Infinity'' else r)"
| "json_dumps (JStr s) = json_string s"
| "json_dumps (JList xs) = ''['' @ join '', '' (map json_dumps xs) @ '']''"
| "json_dumps (JObj kvs) =
     ''{'' @ join '', '' (map (\<lambda>p. json_string (fst p) @ '': '' @ json_dumps (snd p)) kvs) @ ''}''"

text \<open>The lines of a text that was printed: the pieces that end in a newline.\<close>

fun lines_acc :: "string \<Rightarrow> string \<Rightarrow> string list" where
  "lines_acc cur [] = (if cur = [] then [] else [cur])"
| "lines_acc cur (c # cs) =
     (if c = CHR 0x0A then cur # lines_acc [] cs else lines_acc (cur @ [c]) cs)"

definition lines_of :: "string \<Rightarrow> string list" where
  "lines_of s = lines_acc [] s"

subsection \<open>\<open>base64\<close>, \<open>bytes.hex\<close> and \<open>int(text)\<close>\<close>

text \<open>
  The standard library's base64 codec with the standard alphabet. \<open>b64encode\<close>
  turns three bytes into four characters and pads the last group with \<open>=\<close>.
  \<open>a2b_base64\<close> is the decoder as \<open>base64.b64decode\<close> runs it (not validating):
  characters outside the alphabet are skipped, \<open>quad_pos\<close> counts the characters
  of the current group of four, \<open>leftchar\<close> holds the bits not yet written, and
  padding that completes a group ends the decoding.
\<close>

definition b64chr :: "nat \<Rightarrow> char" where
  "b64chr n = ''ABCDEFGHIJKLMNOPQRSTUVWXYZabcdefghijklmnopqrstuvwxyz0123456789+/'' ! n"

definition b64idx :: "char \<Rightarrow> nat option" where
  "b64idx c =
     (let n = (of_char c :: nat) in
      if 65 \<le> n \<and> n \<le> 90 then Some (n - 65)
      else if 97 \<le> n \<and> n \<le> 122 then Some (n - 71)
      else if 48 \<le> n \<and> n \<le> 57 then Some (n + 4)
      else if n = 43 then Some 62
      else if n = 47 then Some 63
      else None)"

fun b64encode :: "byte list \<Rightarrow> string" where
  "b64encode [] = []"
| "b64encode [a] =
     [b64chr (unat a div 4), b64chr (unat a mod 4 * 16), CHR ''='', CHR ''='']"
| "b64encode [a, b] =
     [b64chr (unat a div 4), b64chr (unat a mod 4 * 16 + unat b div 16),
      b64chr (unat b mod 16 * 4), CHR ''='']"
| "b64encode (a # b # c # rest) =
     [b64chr (unat a div 4), b64chr (unat a mod 4 * 16 + unat b div 16),
      b64chr (unat b mod 16 * 4 + unat c div 64), b64chr (unat c mod 64)]
     @ b64encode rest"

fun a2b_loop :: "nat \<Rightarrow> nat \<Rightarrow> nat \<Rightarrow> string \<Rightarrow> byte list \<Rightarrow> nat \<times> byte list" where
  "a2b_loop quad_pos leftchar pads [] out = (quad_pos, out)"
| "a2b_loop quad_pos leftchar pads (c # cs) out =
     (if c = CHR ''='' then
        (if quad_pos \<ge> 2 \<and> quad_pos + (pads + 1) \<ge> 4 then (0, out)
         else a2b_loop quad_pos leftchar (if quad_pos \<ge> 2 then pads + 1 else pads) cs out)
      else
        (case b64idx c of
           None \<Rightarrow> a2b_loop quad_pos leftchar pads cs out
         | Some this_ch \<Rightarrow>
             (if quad_pos = 0 then a2b_loop 1 this_ch 0 cs out
              else if quad_pos = 1 then
                a2b_loop 2 (this_ch mod 16) 0 cs (out @ [of_nat (leftchar * 4 + this_ch div 16)])
              else if quad_pos = 2 then
                a2b_loop 3 (this_ch mod 4) 0 cs (out @ [of_nat (leftchar * 16 + this_ch div 4)])
              else a2b_loop 0 0 0 cs (out @ [of_nat (leftchar * 64 + this_ch)]))))"

definition a2b_base64 :: "string \<Rightarrow> exc + byte list" where
  "a2b_base64 s =
     (case a2b_loop 0 0 0 s [] of (quad_pos, out) \<Rightarrow>
        if quad_pos = 0 then Inr out
        else if quad_pos = 1 then
          Inl (Exc BinasciiError
            (''Invalid base64-encoded string: number of data characters (''
             @ str_nat (length out div 3 * 4 + 1)
             @ '') cannot be 1 more than a multiple of 4''))
        else Inl (Exc BinasciiError ''Incorrect padding''))"

text \<open>\<open>base64.b64decode(x)\<close> on a decoded JSON value: a text must be ASCII, anything
  that is not a text is a \<open>TypeError\<close>.\<close>

fun b64decode :: "json \<Rightarrow> exc + byte list" where
  "b64decode (JStr s) =
     (if list_all (\<lambda>c. (of_char c :: nat) < 128) s then a2b_base64 s
      else Inl (Exc ValueError ''string argument should contain only ASCII characters''))"
| "b64decode x =
     Inl (Exc TypeError
       (''argument should be a bytes-like object or ASCII string, not '' @ quoted (type_name x)))"

text \<open>\<open>bs.hex()\<close>, and \<open>codecs.encode(bs, 'hex')\<close>: two lower-case digits a byte.\<close>

definition bytes_hex :: "byte list \<Rightarrow> string" where
  "bytes_hex bs = concat (map (\<lambda>b. hex2 (unat b)) bs)"

text \<open>\<open>int(text)\<close>: surrounding white space is dropped, then an optional sign and
  decimal digits, single underscores allowed between digits. More than 4300 digits
  are refused. \<open>None\<close> stands for the \<open>ValueError\<close>.\<close>

definition is_space :: "char \<Rightarrow> bool" where
  "is_space c = ((of_char c :: nat) \<in> {9, 10, 11, 12, 13, 28, 29, 30, 31, 32, 133, 160})"

definition is_digit :: "char \<Rightarrow> bool" where
  "is_digit c = (48 \<le> (of_char c :: nat) \<and> (of_char c :: nat) \<le> 57)"

fun int_body :: "bool \<Rightarrow> string \<Rightarrow> bool" where
  "int_body prev [] = prev"
| "int_body prev (c # cs) =
     (if is_digit c then int_body True cs
      else if c = CHR ''_'' \<and> prev then int_body False cs
      else False)"

definition digits_value :: "string \<Rightarrow> nat" where
  "digits_value s = foldl (\<lambda>acc c. acc * 10 + (of_char c - 48)) 0 (filter is_digit s)"

definition py_int :: "string \<Rightarrow> int option" where
  "py_int s =
     (let t = rev (dropWhile is_space (rev (dropWhile is_space s)));
          neg = (t \<noteq> [] \<and> hd t = CHR ''-'');
          body = (if t \<noteq> [] \<and> (hd t = CHR ''-'' \<or> hd t = CHR ''+'') then tl t else t)
      in if int_body False body \<and> length (filter is_digit body) \<le> 4300
         then Some (if neg then - int (digits_value body) else int (digits_value body))
         else None)"

section \<open>The world the scripts run in\<close>

text \<open>
  What a run can observe is fixed by an \<open>env\<close>: the environment variables, the
  absolute path of \<open>lnd_client.py\<close>, the files (a path is missing, unreadable, or
  has a content), and the two libraries the client calls into. \<open>net\<close> stands for
  \<open>requests.request\<close>: the answer to the \<open>n\<close>-th call (counted from 0) with a
  given request is an exception or a response. \<open>qr_png\<close> stands for the
  \<open>qrcode\<close> library and the image writer: the PNG bytes for a payload, or an
  exception. What a run does is recorded in a \<open>world\<close>: the text written to
  standard output and to standard error, the lines still waiting on standard input,
  and the trace of files opened and HTTP calls made, in order.
\<close>

datatype file_result = Missing | Unreadable | Content "byte list"

record http_request =
  req_method :: string
  req_url :: string
  req_json :: "json option"
  req_headers :: "(string \<times> string) list"
  req_verify :: string

text \<open>A response: \<open>json_result\<close> is what \<open>response.json()\<close> gives, the decoded
  body or the exception of the decoder.\<close>

record response =
  status_code :: nat
  reason :: string
  resp_url :: string
  resp_text :: string
  json_result :: "exc + json"

datatype http_outcome = Raises exc | Responds response

datatype event = FileOpen string | HttpCall http_request

record env =
  environ :: "string \<Rightarrow> string option"
  script_file :: string
  fs :: "string \<Rightarrow> file_result"
  net :: "nat \<Rightarrow> http_request \<Rightarrow> http_outcome"
  qr_png :: "json \<Rightarrow> exc + byte list"

record world =
  stdout :: string
  stderr :: string
  stdin :: "string list"
  trace :: "event list"

definition world0 :: "string list \<Rightarrow> world" where
  "world0 input_lines = \<lparr>stdout = [], stderr = [], stdin = input_lines, trace = []\<rparr>"

fun http_calls :: "event list \<Rightarrow> http_request list" where
  "http_calls [] = []"
| "http_calls (FileOpen p # es) = http_calls es"
| "http_calls (HttpCall r # es) = r # http_calls es"

fun files_opened :: "event list \<Rightarrow> string list" where
  "files_opened [] = []"
| "files_opened (FileOpen p # es) = p # files_opened es"
| "files_opened (HttpCall r # es) = files_opened es"

definition print_out :: "string \<Rightarrow> world \<Rightarrow> world" where
  "print_out s w = w\<lparr>stdout := stdout w @ s @ nl\<rparr>"

definition print_err :: "string \<Rightarrow> world \<Rightarrow> world" where
  "print_err s w = w\<lparr>stderr := stderr w @ s @ nl\<rparr>"

text \<open>\<open>input(prompt)\<close>: the prompt goes to standard output without a newline, the next
  line of standard input is the result, and the end of input is an \<open>EOFError\<close>.\<close>

definition input :: "string \<Rightarrow> world \<Rightarrow> (exc + string) \<times> world" where
  "input prompt w =
     (let w1 = w\<lparr>stdout := stdout w @ prompt\<rparr> in
      case stdin w1 of
        [] \<Rightarrow> (Inl (Exc EOFError ''EOF when reading a line''), w1)
      | l # ls \<Rightarrow> (Inr l, w1\<lparr>stdin := ls\<rparr>))"

section \<open>\<open>lnd_client.py\<close>: the client\<close>

text \<open>\<open>os.path.dirname\<close> and \<open>os.path.join\<close> on POSIX paths.\<close>

definition dirname :: "string \<Rightarrow> string" where
  "dirname p =
     (let head = rev (dropWhile (\<lambda>c. c \<noteq> CHR ''/'') (rev p)) in
      if head \<noteq> [] \<and> \<not> list_all (\<lambda>c. c = CHR ''/'') head
      then rev (dropWhile (\<lambda>c. c = CHR ''/'') (rev head))
      else head)"

definition path_join2 :: "string \<Rightarrow> string \<Rightarrow> string" where
  "path_join2 path b =
     (if b \<noteq> [] \<and> hd b = CHR ''/'' then b
      else if path = [] \<or> last path = CHR ''/'' then path @ b
      else path @ ''/'' @ b)"

definition path_join :: "string \<Rightarrow> string list \<Rightarrow> string" where
  "path_join a ps = foldl path_join2 a ps"

definition environ_get :: "env \<Rightarrow> string \<Rightarrow> string \<Rightarrow> string" where
  "environ_get e k d = (case environ e k of None \<Rightarrow> d | Some v \<Rightarrow> v)"

record lnd_client =
  cert_path :: string
  macaroon_path :: string
  api_endpoint :: string

text \<open>\<open>LNDClient.__init__\<close>: three settings, each from the environment or from its
  default; no file is opened here.\<close>

definition LNDClient :: "env \<Rightarrow> lnd_client" where
  "LNDClient e =
     (let base_path = dirname (script_file e);
          config_path = path_join base_path [''..'', ''config'']
      in \<lparr>cert_path = environ_get e ''LND_CERT_PATH'' (path_join config_path [''tls.cert'']),
          macaroon_path =
            environ_get e ''LND_MACAROON_PATH'' (path_join config_path [''admin.macaroon'']),
          api_endpoint = environ_get e ''LND_REST_API'' ''https://127.0.0.1:8083''\<rparr>)"

text \<open>\<open>get_headers\<close>: opens and reads the macaroon file, nothing else.\<close>

definition get_headers ::
  "env \<Rightarrow> lnd_client \<Rightarrow> world \<Rightarrow> (exc + (string \<times> string) list) \<times> world" where
  "get_headers e self w =
     (let w1 = w\<lparr>trace := trace w @ [FileOpen (macaroon_path self)]\<rparr> in
      case fs e (macaroon_path self) of
        Missing \<Rightarrow>
          (Inl (Exc FileNotFoundError
             (''[Errno 2] No such file or directory: '' @ repr_str (macaroon_path self))), w1)
      | Unreadable \<Rightarrow>
          (Inl (Exc PermissionError
             (''[Errno 13] Permission denied: '' @ repr_str (macaroon_path self))), w1)
      | Content macaroon_bytes \<Rightarrow>
          (Inr [(''Grpc-Metadata-macaroon'', bytes_hex macaroon_bytes)], w1))"

text \<open>\<open>Response.raise_for_status\<close> of the \<open>requests\<close> library: an \<open>HTTPError\<close>
  for a status from 400 to 599, nothing otherwise.\<close>

definition raise_for_status :: "response \<Rightarrow> exc option" where
  "raise_for_status r =
     (if 400 \<le> status_code r \<and> status_code r < 500 then
        Some (Exc HTTPError
          (str_nat (status_code r) @ '' Client Error: '' @ reason r @ '' for url: '' @ resp_url r))
      else if 500 \<le> status_code r \<and> status_code r < 600 then
        Some (Exc HTTPError
          (str_nat (status_code r) @ '' Server Error: '' @ reason r @ '' for url: '' @ resp_url r))
      else None)"

text \<open>
  The \<open>except requests.exceptions.RequestException as e\<close> block of \<open>_request\<close>.
  The local variable \<open>response\<close> is \<open>None\<close> here while it is unbound, which it is
  when \<open>requests.request\<close> itself raised: nothing assigns it before the \<open>try\<close>.
  Reading it then raises \<open>UnboundLocalError\<close>, and the bare \<open>raise\<close> is not
  reached. A bound \<open>response\<close> is never Python's \<open>None\<close>, so its text is printed.
\<close>

definition unbound_response :: exc where
  "unbound_response =
     Exc UnboundLocalError
       (''cannot access local variable '' @ quoted ''response''
        @ '' where it is not associated with a value'')"

definition except_RequestException ::
  "exc \<Rightarrow> response option \<Rightarrow> world \<Rightarrow> (exc + json) \<times> world" where
  "except_RequestException e response w =
     (let w1 = print_err (''Error connecting to LND: '' @ str_exc e) w in
      case response of
        None \<Rightarrow> (Inl unbound_response, w1)
      | Some r \<Rightarrow> (Inl e, print_err (''Response: '' @ resp_text r) w1))"

text \<open>\<open>_request\<close>. The headers are built first, outside the \<open>try\<close>. The call of
  \<open>requests.request\<close> is recorded in the trace whatever its outcome.\<close>

definition request ::
  "env \<Rightarrow> lnd_client \<Rightarrow> string \<Rightarrow> string \<Rightarrow> json option \<Rightarrow> world \<Rightarrow> (exc + json) \<times> world" where
  "request e self method endpoint data w =
     (let url = api_endpoint self @ endpoint in
      case get_headers e self w of
        (Inl x, w1) \<Rightarrow> (Inl x, w1)
      | (Inr headers, w1) \<Rightarrow>
          (let req = \<lparr>req_method = method, req_url = url, req_json = data,
                      req_headers = headers, req_verify = cert_path self\<rparr>;
               w2 = w1\<lparr>trace := trace w1 @ [HttpCall req]\<rparr>
           in case net e (length (http_calls (trace w1))) req of
                Raises x \<Rightarrow>
                  (if is_RequestException x then except_RequestException x None w2
                   else (Inl x, w2))
              | Responds r \<Rightarrow>
                  (case raise_for_status r of
                     Some x \<Rightarrow> except_RequestException x (Some r) w2
                   | None \<Rightarrow>
                       (case json_result r of
                          Inl x \<Rightarrow>
                            (if is_RequestException x then except_RequestException x (Some r) w2
                             else (Inl x, w2))
                        | Inr j \<Rightarrow> (Inr j, w2)))))"

definition get_info :: "env \<Rightarrow> lnd_client \<Rightarrow> world \<Rightarrow> (exc + json) \<times> world" where
  "get_info e self w = request e self ''GET'' ''/v1/getinfo'' None w"

definition add_invoice ::
  "env \<Rightarrow> lnd_client \<Rightarrow> int \<Rightarrow> string \<Rightarrow> world \<Rightarrow> (exc + json) \<times> world" where
  "add_invoice e self amount memo w =
     (let data = JObj [(''value'', JInt amount), (''memo'', JStr memo)] in
      request e self ''POST'' ''/v1/invoices'' (Some data) w)"

text \<open>\<open>generate_qr_base64\<close>: the image comes from the libraries, the client encodes
  its bytes in base64.\<close>

definition generate_qr_base64 :: "env \<Rightarrow> json \<Rightarrow> exc + string" where
  "generate_qr_base64 e data =
     (case qr_png e data of Inl x \<Rightarrow> Inl x | Inr png \<Rightarrow> Inr (b64encode png))"

section \<open>How a script ends\<close>

text \<open>A script that runs to its end, or whose \<open>main\<close> returns, exits with status 0;
  \<open>sys.exit(n)\<close> exits with status \<open>n\<close>; any other exception that nothing catches
  ends the process with a traceback on standard error and a non-zero status.\<close>

datatype proc_end = Exit nat | Traceback exc

fun script_end :: "exc + unit \<Rightarrow> proc_end" where
  "script_end (Inr u) = Exit 0"
| "script_end (Inl (SystemExit n)) = Exit n"
| "script_end (Inl (Exc c m)) = Traceback (Exc c m)"

section \<open>\<open>lnd_client.py\<close> run as a program: the JSON tool\<close>

text \<open>The command line after \<open>argparse\<close>: the subcommand is one of the two choices,
  \<open>--amount\<close> is an integer when given, \<open>--memo\<close> defaults to \<open>Donation\<close>.\<close>

datatype command = Info | Invoice

record cli_args =
  command :: command
  cli_amount :: "int option"
  cli_memo :: "string option"

definition args_memo :: "cli_args \<Rightarrow> string" where
  "args_memo a = (case cli_memo a of None \<Rightarrow> ''Donation'' | Some m \<Rightarrow> m)"

text \<open>\<open>not args.amount\<close>: true for a missing amount and for 0.\<close>

definition not_amount :: "int option \<Rightarrow> bool" where
  "not_amount a = (case a of None \<Rightarrow> True | Some n \<Rightarrow> n = 0)"

text \<open>\<open>x[k] = v\<close>.\<close>

fun setitem :: "json \<Rightarrow> string \<Rightarrow> json \<Rightarrow> exc + json" where
  "setitem (JObj kvs) k v = Inr (JObj (dict_set kvs k v))"
| "setitem (JList xs) k v =
     Inl (Exc TypeError ''list indices must be integers or slices, not str'')"
| "setitem x k v =
     Inl (Exc TypeError (quoted (type_name x) @ '' object does not support item assignment''))"

text \<open>The body of the \<open>try\<close>. Past the amount check \<open>args.amount\<close> is an integer
  other than 0, so \<open>the\<close> is only applied to a \<open>Some\<close>.\<close>

definition cli_try :: "env \<Rightarrow> cli_args \<Rightarrow> lnd_client \<Rightarrow> world \<Rightarrow> (exc + unit) \<times> world" where
  "cli_try e a client w =
     (case command a of
        Info \<Rightarrow>
          (case get_info e client w of
             (Inl x, w1) \<Rightarrow> (Inl x, w1)
           | (Inr info, w1) \<Rightarrow> (Inr (), print_out (json_dumps info) w1))
      | Invoice \<Rightarrow>
          (if not_amount (cli_amount a) then
             (Inl (SystemExit 1),
              print_out (json_dumps (JObj [(''error'', JStr ''Amount is required for invoice'')])) w)
           else
             (case add_invoice e client (the (cli_amount a)) (args_memo a) w of
                (Inl x, w1) \<Rightarrow> (Inl x, w1)
              | (Inr invoice, w1) \<Rightarrow>
                  (case dict_get invoice ''payment_request'' JNull of
                     Inl x \<Rightarrow> (Inl x, w1)
                   | Inr payment_request \<Rightarrow>
                       (if truthy payment_request then
                          (case generate_qr_base64 e payment_request of
                             Inl x \<Rightarrow> (Inl x, w1)
                           | Inr qr_code \<Rightarrow>
                               (case setitem invoice ''qr_code_base64'' (JStr qr_code) of
                                  Inl x \<Rightarrow> (Inl x, w1)
                                | Inr invoice' \<Rightarrow> (Inr (), print_out (json_dumps invoice') w1)))
                        else
                          (Inl (SystemExit 1),
                           print_out (json_dumps (JObj
                             [(''error'', JStr ''Failed to get payment request from LND response''),
                              (''response'', invoice)])) w1))))))"

text \<open>The program: the client is built, the \<open>try\<close> runs, and \<open>except Exception\<close>
  prints the error object and exits with status 1. \<open>SystemExit\<close> passes through it.\<close>

definition lnd_client_main :: "env \<Rightarrow> cli_args \<Rightarrow> world \<Rightarrow> proc_end \<times> world" where
  "lnd_client_main e a w =
     (let client = LNDClient e in
      case cli_try e a client w of
        (Inr u, w1) \<Rightarrow> (script_end (Inr u), w1)
      | (Inl x, w1) \<Rightarrow>
          (if is_Exception x then
             (script_end (Inl (SystemExit 1)),
              print_out (json_dumps (JObj [(''error'', JStr (str_exc x))])) w1)
           else (script_end (Inl x), w1)))"

section \<open>\<open>create_invoice.py\<close>: the interactive tool\<close>

record args =
  amount_arg :: "int option"
  memo_arg :: "string option"

text \<open>The amount: from the command line, or asked for. Only a \<open>ValueError\<close> is
  caught around the prompt; an empty answer and an answer that is no integer print a
  message and make \<open>main\<close> return (\<open>Inr None\<close>).\<close>

definition ask_amount :: "args \<Rightarrow> world \<Rightarrow> (exc + int option) \<times> world" where
  "ask_amount a w =
     (case amount_arg a of
        Some n \<Rightarrow> (Inr (Some n), w)
      | None \<Rightarrow>
          (case input ''Enter amount (sats): '' w of
             (Inl x, w1) \<Rightarrow>
               (if is_ValueError x then (Inr None, print_out ''Invalid amount.'' w1)
                else (Inl x, w1))
           | (Inr val, w1) \<Rightarrow>
               (if val = [] then (Inr None, print_out ''Amount is required.'' w1)
                else (case py_int val of
                        None \<Rightarrow> (Inr None, print_out ''Invalid amount.'' w1)
                      | Some n \<Rightarrow> (Inr (Some n), w1)))))"

text \<open>The memo: from the command line, or asked for, outside any \<open>try\<close>.\<close>

definition ask_memo :: "args \<Rightarrow> world \<Rightarrow> (exc + string) \<times> world" where
  "ask_memo a w =
     (case memo_arg a of
        Some m \<Rightarrow> (Inr m, w)
      | None \<Rightarrow> input ''Enter memo (optional): '' w)"

text \<open>The body of the \<open>try\<close>.\<close>

definition main_try :: "env \<Rightarrow> int \<Rightarrow> string \<Rightarrow> world \<Rightarrow> (exc + unit) \<times> world" where
  "main_try e amount_sats memo_text w =
     (let lnd = LNDClient e in
      case get_info e lnd w of
        (Inl x, w1) \<Rightarrow> (Inl x, w1)
      | (Inr info, w1) \<Rightarrow>
      (case dict_get info ''alias'' (JStr ''unknown'') of
        Inl x \<Rightarrow> (Inl x, w1)
      | Inr alias \<Rightarrow>
      (let w2 = print_out (''Connected to LND node: '' @ py_str alias) w1;
           w3 = print_out (''Creating invoice for '' @ str_int amount_sats @ '' sats...'') w2
       in case add_invoice e lnd amount_sats memo_text w3 of
        (Inl x, w4) \<Rightarrow> (Inl x, w4)
      | (Inr invoice, w4) \<Rightarrow>
      (let w5 = print_out (nl @ ''=== INVOICE CREATED ==='') w4 in
       case subscript invoice ''payment_request'' of
        Inl x \<Rightarrow> (Inl x, w5)
      | Inr payment_request \<Rightarrow>
      (let w6 = print_out (''Payment Request: '' @ py_str payment_request) w5 in
       case subscript invoice ''r_hash'' of
        Inl x \<Rightarrow> (Inl x, w6)
      | Inr r_hash_b64 \<Rightarrow>
      (case b64decode r_hash_b64 of
        Inl x \<Rightarrow> (Inl x, w6)
      | Inr r_hash \<Rightarrow>
      (let w7 = print_out (''R Hash (hex):    '' @ bytes_hex r_hash) w6 in
       case dict_get invoice ''add_index'' (JStr ''N/A'') of
        Inl x \<Rightarrow> (Inl x, w7)
      | Inr add_index \<Rightarrow>
          (Inr (), print_out ''=======================''
                     (print_out (''Add Index:       '' @ py_str add_index) w7)))))))))"

text \<open>\<open>main\<close>: the prompts, then the \<open>try\<close> with its \<open>except Exception\<close>, which
  prints two lines and lets \<open>main\<close> return.\<close>

definition main :: "env \<Rightarrow> args \<Rightarrow> world \<Rightarrow> (exc + unit) \<times> world" where
  "main e a w =
     (case ask_amount a w of
        (Inl x, w1) \<Rightarrow> (Inl x, w1)
      | (Inr None, w1) \<Rightarrow> (Inr (), w1)
      | (Inr (Some n), w1) \<Rightarrow>
          (case ask_memo a w1 of
             (Inl x, w2) \<Rightarrow> (Inl x, w2)
           | (Inr m, w2) \<Rightarrow>
               (case main_try e n m w2 of
                  (Inr u, w3) \<Rightarrow> (Inr (), w3)
                | (Inl x, w3) \<Rightarrow>
                    (if is_Exception x then
                       (Inr (),
                        print_out ''Make sure your LND node is running and lnd_client.py determines the correct paths.''
                          (print_out (nl @ ''Error: '' @ str_exc x) w3))
                     else (Inl x, w3)))))"

definition create_invoice :: "env \<Rightarrow> args \<Rightarrow> world \<Rightarrow> proc_end \<times> world" where
  "create_invoice e a w = (case main e a w of (r, w1) \<Rightarrow> (script_end r, w1))"

section \<open>Concrete runs\<close>

text \<open>
  Installations and nodes to run the scripts on: the scripts live in \<open>/opt/lnd/py\<close>,
  no environment variable is set, so the credentials are looked for in
  \<open>/opt/lnd/py/../config\<close>. The files are all there (\<open>files_ok\<close>), or the macaroon
  is missing, or the certificate cannot be read. The node answers as the mocked node
  of the specification's example (\<open>net_mock\<close>), or the HTTP call raises
  (\<open>net_raises\<close>), or every answer has a given status and the body \<open>{}\<close>
  (\<open>net_status\<close>).
\<close>

definition files_ok :: "string \<Rightarrow> file_result" where
  "files_ok p =
     (if p = ''/opt/lnd/py/../config/admin.macaroon'' then Content [0x02, 0x01, 0xAB]
      else if p = ''/opt/lnd/py/../config/tls.cert'' then Content [0x2D, 0x2D]
      else Missing)"

definition files_no_macaroon :: "string \<Rightarrow> file_result" where
  "files_no_macaroon p =
     (if p = ''/opt/lnd/py/../config/tls.cert'' then Content [0x2D, 0x2D] else Missing)"

definition files_cert_unreadable :: "string \<Rightarrow> file_result" where
  "files_cert_unreadable p =
     (if p = ''/opt/lnd/py/../config/admin.macaroon'' then Content [0x02, 0x01, 0xAB]
      else if p = ''/opt/lnd/py/../config/tls.cert'' then Unreadable
      else Missing)"

definition ok_response :: "json \<Rightarrow> response" where
  "ok_response j = \<lparr>status_code = 200, reason = ''OK'', resp_url = [], resp_text = json_dumps j,
     json_result = Inr j\<rparr>"

definition net_mock :: "nat \<Rightarrow> http_request \<Rightarrow> http_outcome" where
  "net_mock n r =
     (if req_method r = ''GET'' then
        Responds (ok_response (JObj [(''alias'', JStr ''testnode''), (''version'', JStr ''0.17'')]))
      else
        Responds (ok_response (JObj [(''payment_request'', JStr ''lnbc1...''),
                                     (''r_hash'', JStr ''AAECAw=='')])))"

definition net_raises :: "exc \<Rightarrow> nat \<Rightarrow> http_request \<Rightarrow> http_outcome" where
  "net_raises x n r = Raises x"

definition net_status :: "nat \<Rightarrow> string \<Rightarrow> nat \<Rightarrow> http_request \<Rightarrow> http_outcome" where
  "net_status code why n r =
     Responds \<lparr>status_code = code, reason = why, resp_url = req_url r,
       resp_text = ''{}'', json_result = Inr (JObj [])\<rparr>"

definition test_env :: "(string \<Rightarrow> file_result) \<Rightarrow> (nat \<Rightarrow> http_request \<Rightarrow> http_outcome) \<Rightarrow> env" where
  "test_env files answers =
     \<lparr>environ = (\<lambda>k. None), script_file = ''/opt/lnd/py/lnd_client.py'', fs = files,
      net = answers, qr_png = (\<lambda>d. Inr [0x89, 0x50, 0x4E, 0x47])\<rparr>"

section \<open>The base64 round trip\<close>

text \<open>Every character \<open>b64encode\<close> writes for a six-bit value is read back as that
  value, is no padding and is ASCII.\<close>

lemma b64_table:
  "list_all (\<lambda>n. b64idx (b64chr n) = Some n \<and> b64chr n \<noteq> CHR ''=''
      \<and> (of_char (b64chr n) :: nat) < 128) [0..<64]"
  by (simp add: upt_rec b64chr_def b64idx_def)

lemma b64chr_props:
  assumes "n < 64"
  shows "b64idx (b64chr n) = Some n" and "b64chr n \<noteq> CHR ''=''"
    and "(of_char (b64chr n) :: nat) < 128"
proof -
  from assms have "n \<in> set [0..<64]" by simp
  with b64_table
  have "b64idx (b64chr n) = Some n \<and> b64chr n \<noteq> CHR ''='' \<and> (of_char (b64chr n) :: nat) < 128"
    unfolding list_all_iff by blast
  then show "b64idx (b64chr n) = Some n" and "b64chr n \<noteq> CHR ''=''"
    and "(of_char (b64chr n) :: nat) < 128"
    by simp_all
qed

lemma unat_byte_lt: "unat (a :: byte) < 256"
  using unsigned_less [of a, where ?'a = nat] by simp

lemma div_lt: "(x::nat) < 256 \<Longrightarrow> x div 4 < 64" "(x::nat) < 256 \<Longrightarrow> x div 16 < 16" "(x::nat) < 256 \<Longrightarrow> x div 64 < 4"
  by simp_all

lemma mod_le: "(x::nat) mod 4 \<le> 3" "(x::nat) mod 16 \<le> 15" "(x::nat) mod 64 < 64"
  by simp_all

lemma sextets:
  fixes a b c :: byte
  shows "unat a div 4 < 64" "unat a mod 4 * 16 < 64" "unat a mod 4 * 16 + unat b div 16 < 64"
    "unat b mod 16 * 4 < 64" "unat b mod 16 * 4 + unat c div 64 < 64" "unat c mod 64 < 64"
proof -
  show "unat a div 4 < 64" using unat_byte_lt [of a] by (rule div_lt)
  show "unat a mod 4 * 16 < 64" using mod_le(1) [of "unat a"] by linarith
  show "unat a mod 4 * 16 + unat b div 16 < 64"
    using mod_le(1) [of "unat a"] div_lt(2) [OF unat_byte_lt [of b]] by linarith
  show "unat b mod 16 * 4 < 64" using mod_le(2) [of "unat b"] by linarith
  show "unat b mod 16 * 4 + unat c div 64 < 64"
    using mod_le(2) [of "unat b"] div_lt(3) [OF unat_byte_lt [of c]] by linarith
  show "unat c mod 64 < 64" by simp
qed

lemma div_mul_add: "(j::nat) < n \<Longrightarrow> (k * n + j) div n = k"
  by simp

lemma recombine:
  fixes a b c :: byte
  shows "(of_nat (unat a div 4 * 4 + (unat a mod 4 * 16 + unat b div 16) div 16) :: byte) = a"
    "(of_nat (unat a div 4 * 4 + (unat a mod 4 * 16) div 16) :: byte) = a"
    "(of_nat ((unat a mod 4 * 16 + unat b div 16) mod 16 * 16 + (unat b mod 16 * 4 + unat c div 64) div 4) :: byte) = b"
    "(of_nat ((unat a mod 4 * 16 + unat b div 16) mod 16 * 16 + (unat b mod 16 * 4) div 4) :: byte) = b"
    "(of_nat ((unat b mod 16 * 4 + unat c div 64) mod 4 * 64 + unat c mod 64) :: byte) = c"
proof -
  have b16: "unat b div 16 < 16" using unat_byte_lt [of b] by (rule div_lt)
  have c64: "unat c div 64 < 4" using unat_byte_lt [of c] by (rule div_lt)
  have "unat a div 4 * 4 + (unat a mod 4 * 16 + unat b div 16) div 16 = unat a"
    by (simp add: div_mul_add [OF b16])
  then show "(of_nat (unat a div 4 * 4 + (unat a mod 4 * 16 + unat b div 16) div 16) :: byte) = a" by simp
  have "unat a div 4 * 4 + (unat a mod 4 * 16) div 16 = unat a" by simp
  then show "(of_nat (unat a div 4 * 4 + (unat a mod 4 * 16) div 16) :: byte) = a" by simp
  have "(unat a mod 4 * 16 + unat b div 16) mod 16 * 16 + (unat b mod 16 * 4 + unat c div 64) div 4 = unat b"
    by (simp add: mod_less [OF b16] div_mul_add [OF c64])
  then show "(of_nat ((unat a mod 4 * 16 + unat b div 16) mod 16 * 16 + (unat b mod 16 * 4 + unat c div 64) div 4) :: byte) = b" by simp
  have "(unat a mod 4 * 16 + unat b div 16) mod 16 * 16 + (unat b mod 16 * 4) div 4 = unat b"
    by (simp add: mod_less [OF b16])
  then show "(of_nat ((unat a mod 4 * 16 + unat b div 16) mod 16 * 16 + (unat b mod 16 * 4) div 4) :: byte) = b" by simp
  have "(unat b mod 16 * 4 + unat c div 64) mod 4 * 64 + unat c mod 64 = unat c"
    by (simp add: mod_less [OF c64])
  then show "(of_nat ((unat b mod 16 * 4 + unat c div 64) mod 4 * 64 + unat c mod 64) :: byte) = c" by simp
qed


lemma step_alpha:
  "n < 64 \<Longrightarrow> a2b_loop q l p (b64chr n # cs) out =
     (if q = 0 then a2b_loop 1 n 0 cs out
      else if q = 1 then a2b_loop 2 (n mod 16) 0 cs (out @ [of_nat (l * 4 + n div 16)])
      else if q = 2 then a2b_loop 3 (n mod 4) 0 cs (out @ [of_nat (l * 16 + n div 4)])
      else a2b_loop 0 0 0 cs (out @ [of_nat (l * 64 + n)]))"
  by (simp add: b64chr_props)

lemma step_pad:
  "a2b_loop q l p (CHR ''='' # cs) out =
     (if q \<ge> 2 \<and> q + (p + 1) \<ge> 4 then (0, out)
      else a2b_loop q l (if q \<ge> 2 then p + 1 else p) cs out)"
  by simp

lemma decode_quad:
  assumes "n0 < 64" "n1 < 64" "n2 < 64" "n3 < 64"
  shows "a2b_loop 0 l p (b64chr n0 # b64chr n1 # b64chr n2 # b64chr n3 # cs) out =
     a2b_loop 0 0 0 cs (out @ [of_nat (n0 * 4 + n1 div 16), of_nat (n1 mod 16 * 16 + n2 div 4),
       of_nat (n2 mod 4 * 64 + n3)])"
  by (simp add: step_alpha assms del: a2b_loop.simps(2))

lemma decode_triple:
  assumes "n0 < 64" "n1 < 64" "n2 < 64"
  shows "a2b_loop 0 l p [b64chr n0, b64chr n1, b64chr n2, CHR ''=''] out =
     (0, out @ [of_nat (n0 * 4 + n1 div 16), of_nat (n1 mod 16 * 16 + n2 div 4)])"
  by (simp add: step_alpha step_pad assms del: a2b_loop.simps(2))

lemma decode_pair:
  assumes "n0 < 64" "n1 < 64"
  shows "a2b_loop 0 l p [b64chr n0, b64chr n1, CHR ''='', CHR ''=''] out =
     (0, out @ [of_nat (n0 * 4 + n1 div 16)])"
  by (simp add: step_alpha step_pad assms del: a2b_loop.simps(2))

lemma a2b_loop_b64encode: "a2b_loop 0 l p (b64encode bs) out = (0, out @ bs)"
proof (induction bs arbitrary: l p out rule: b64encode.induct)
  case 1
  show ?case by simp
next
  case (2 a)
  have "a2b_loop 0 l p (b64encode [a]) out =
      (0, out @ [of_nat (unat a div 4 * 4 + (unat a mod 4 * 16) div 16)])"
    unfolding b64encode.simps by (rule decode_pair) (rule sextets)+
  then show ?case by (simp only: recombine)
next
  case (3 a b)
  have "a2b_loop 0 l p (b64encode [a, b]) out =
      (0, out @ [of_nat (unat a div 4 * 4 + (unat a mod 4 * 16 + unat b div 16) div 16),
         of_nat ((unat a mod 4 * 16 + unat b div 16) mod 16 * 16 + (unat b mod 16 * 4) div 4)])"
    unfolding b64encode.simps by (rule decode_triple) (rule sextets)+
  then show ?case by (simp only: recombine)
next
  case (4 a b c rest)
  have "a2b_loop 0 l p (b64encode (a # b # c # rest)) out =
      a2b_loop 0 0 0 (b64encode rest)
        (out @ [of_nat (unat a div 4 * 4 + (unat a mod 4 * 16 + unat b div 16) div 16),
         of_nat ((unat a mod 4 * 16 + unat b div 16) mod 16 * 16
                   + (unat b mod 16 * 4 + unat c div 64) div 4),
         of_nat ((unat b mod 16 * 4 + unat c div 64) mod 4 * 64 + unat c mod 64)])"
    unfolding b64encode.simps append.simps by (rule decode_quad) (rule sextets)+
  also have "\<dots> = a2b_loop 0 0 0 (b64encode rest) (out @ [a, b, c])"
    by (simp only: recombine)
  also have "\<dots> = (0, (out @ [a, b, c]) @ rest)"
    by (rule "4.IH")
  finally show ?case by simp
qed

lemma b64encode_ascii: "list_all (\<lambda>c. (of_char c :: nat) < 128) (b64encode bs)"
  by (induction bs rule: b64encode.induct) (simp_all add: b64chr_props sextets)

lemma b64decode_b64encode: "b64decode (JStr (b64encode bs)) = Inr bs"
  by (simp add: b64encode_ascii a2b_base64_def a2b_loop_b64encode)

text \<open>\<open>bytes.hex\<close> loses nothing: two byte strings with the same hexadecimal text
  are equal.\<close>

lemma hexdigit_inj:
  assumes "i < 16" "j < 16" "''0123456789abcdef'' ! i = ''0123456789abcdef'' ! j"
  shows "i = j"
proof -
  have "distinct ''0123456789abcdef''" by simp
  moreover have "i < length ''0123456789abcdef''" "j < length ''0123456789abcdef''"
    using assms by simp_all
  ultimately show ?thesis using assms(3) by (simp only: nth_eq_iff_index_eq)
qed

lemma hex2_unat_inj:
  fixes a b :: byte
  assumes "hex2 (unat a) = hex2 (unat b)"
  shows "a = b"
proof -
  from assms have hi: "unat a div 16 mod 16 = unat b div 16 mod 16"
    and lo: "unat a mod 16 = unat b mod 16"
    by (auto simp: hex2_def intro: hexdigit_inj)
  have "unat a div 16 < 16" "unat b div 16 < 16"
    using unat_byte_lt [of a] unat_byte_lt [of b] by (simp_all add: div_lt)
  with hi have "unat a div 16 = unat b div 16" by simp
  with lo have "unat a = unat b"
    by (metis div_mult_mod_eq)
  then show ?thesis by (simp add: word_unat_eq_iff)
qed

lemma bytes_hex_inj: "bytes_hex xs = bytes_hex ys \<Longrightarrow> xs = ys"
proof (induction xs arbitrary: ys)
  case Nil
  then show ?case by (cases ys) (simp_all add: bytes_hex_def hex2_def)
next
  case (Cons x xs)
  show ?case
  proof (cases ys)
    case Nil
    with Cons.prems show ?thesis by (simp add: bytes_hex_def hex2_def)
  next
    case (Cons y ys')
    with Cons.prems have "hex2 (unat x) @ bytes_hex xs = hex2 (unat y) @ bytes_hex ys'"
      by (simp add: bytes_hex_def)
    then have "hex2 (unat x) = hex2 (unat y)" "bytes_hex xs = bytes_hex ys'"
      by (simp_all add: hex2_def)
    with Cons.IH Cons show ?thesis by (simp add: hex2_unat_inj)
  qed
qed

text \<open>
  \<^bold>\<open>C6\<close>, as amended. Let \<open>s\<close> be the base64 encoding of a byte string \<open>bs\<close>, the
  text \<open>base64.b64encode\<close> writes for it. Decoding \<open>s\<close> with \<open>base64.b64decode\<close>
  gives \<open>bs\<close> back, and encoding the bytes again gives \<open>s\<close>. The conversion of the
  interactive tool, \<open>b64decode\<close> followed by \<open>hex\<close>, gives the hexadecimal
  form of \<open>bs\<close> and loses nothing on such texts: two of them with the same
  hexadecimal form are the same text.
\<close>

theorem b64_round_trip:
  assumes "s = b64encode bs" and "s' = b64encode bs'"
  shows "b64decode (JStr s) = Inr bs
     \<and> map_sum id b64encode (b64decode (JStr s)) = Inr s
     \<and> map_sum id bytes_hex (b64decode (JStr s)) = Inr (bytes_hex bs)
     \<and> (map_sum id bytes_hex (b64decode (JStr s)) = map_sum id bytes_hex (b64decode (JStr s'))
          \<longrightarrow> s = s')"
proof -
  have "bytes_hex bs = bytes_hex bs' \<Longrightarrow> b64encode bs = b64encode bs'"
    by (drule bytes_hex_inj) simp
  then show ?thesis
    unfolding assms by (simp only: b64decode_b64encode) simp
qed

theorem b64_round_trip_witness:
  "''AAECAw=='' = b64encode [0, 1, 2, 3]
   \<and> b64decode (JStr ''AAECAw=='') = Inr [0, 1, 2, 3]
   \<and> map_sum id b64encode (b64decode (JStr ''AAECAw=='')) = Inr ''AAECAw==''
   \<and> map_sum id bytes_hex (b64decode (JStr ''AAECAw=='')) = Inr ''00010203''"
proof -
  have enc: "''AAECAw=='' = b64encode [0, 1, 2, 3]"
    by (simp add: b64chr_def)
  have hex: "bytes_hex [0, 1, 2, 3] = ''00010203''"
    by (simp add: bytes_hex_def hex2_def)
  from b64_round_trip [OF enc enc] enc hex show ?thesis by simp
qed

text \<open>The claim as stated speaks of every valid base64 text. The decoder is lenient
  and also accepts texts that no encoder writes, whose unused trailing bits are not
  zero. \<open>AB==\<close> decodes to the one byte 0, which encodes to \<open>AA==\<close>, so the round
  trip does not give the text back; \<open>AAECAx==\<close> and \<open>AAECAw==\<close> are different
  texts with the same hexadecimal form, so the conversion is not lossless on what
  the decoder accepts.\<close>

theorem b64_round_trip_noncanonical:
  "b64decode (JStr ''AB=='') = Inr [0]
   \<and> map_sum id b64encode (b64decode (JStr ''AB=='')) = Inr ''AA==''
   \<and> map_sum id b64encode (b64decode (JStr ''AB=='')) \<noteq> Inr ''AB==''
   \<and> map_sum id bytes_hex (b64decode (JStr ''AAECAx=='')) = Inr ''00010203''
   \<and> map_sum id bytes_hex (b64decode (JStr ''AAECAw=='')) = Inr ''00010203''"
  by (simp add: a2b_base64_def b64idx_def b64chr_def bytes_hex_def hex2_def)

section \<open>The request wrapper\<close>

lemma LNDClient_test_env:
  "LNDClient (test_env files answers) =
     \<lparr>cert_path = ''/opt/lnd/py/../config/tls.cert'',
      macaroon_path = ''/opt/lnd/py/../config/admin.macaroon'',
      api_endpoint = ''https://127.0.0.1:8083''\<rparr>"
  by (simp add: LNDClient_def test_env_def dirname_def path_join_def path_join2_def environ_get_def)

lemma http_calls_append: "http_calls (xs @ ys) = http_calls xs @ http_calls ys"
  by (induction xs rule: http_calls.induct) simp_all

lemma files_opened_append: "files_opened (xs @ ys) = files_opened xs @ files_opened ys"
  by (induction xs rule: files_opened.induct) simp_all

lemma request_readable:
  assumes "fs e (macaroon_path self) = Content mac"
  shows "request e self method endpoint data w =
     (let req = \<lparr>req_method = method, req_url = api_endpoint self @ endpoint, req_json = data,
                  req_headers = [(''Grpc-Metadata-macaroon'', bytes_hex mac)],
                  req_verify = cert_path self\<rparr>;
          w2 = w\<lparr>trace := trace w @ [FileOpen (macaroon_path self), HttpCall req]\<rparr>
      in case net e (length (http_calls (trace w))) req of
           Raises x \<Rightarrow>
             (if is_RequestException x then except_RequestException x None w2 else (Inl x, w2))
         | Responds r \<Rightarrow>
             (case raise_for_status r of
                Some x \<Rightarrow> except_RequestException x (Some r) w2
              | None \<Rightarrow>
                  (case json_result r of
                     Inl x \<Rightarrow>
                       (if is_RequestException x then except_RequestException x (Some r) w2
                        else (Inl x, w2))
                   | Inr j \<Rightarrow> (Inr j, w2))))"
  using assms by (simp add: request_def get_headers_def Let_def http_calls_append
      split: http_outcome.splits option.splits sum.splits)

lemma request_unreadable:
  assumes "fs e (macaroon_path self) = Missing \<or> fs e (macaroon_path self) = Unreadable"
  shows "request e self method endpoint data w =
     (Inl (Exc (if fs e (macaroon_path self) = Missing then FileNotFoundError else PermissionError)
             ((if fs e (macaroon_path self) = Missing then ''[Errno 2] No such file or directory: ''
               else ''[Errno 13] Permission denied: '') @ repr_str (macaroon_path self))),
      w\<lparr>trace := trace w @ [FileOpen (macaroon_path self)]\<rparr>)"
  using assms by (auto simp: request_def get_headers_def Let_def)

lemma trace_except: "trace (snd (except_RequestException x r w)) = trace w"
  by (simp add: except_RequestException_def Let_def print_err_def split: option.splits)

text \<open>
  \<^bold>\<open>C1\<close>. For every integer \<open>amount\<close>, zero and negative ones included, and every
  text \<open>memo\<close>, \<open>add_invoice\<close> makes exactly one HTTP call: a POST to the endpoint
  path \<open>/v1/invoices\<close> whose JSON body is the object with the two fields \<open>value\<close>
  and \<open>memo\<close>, holding the amount and the memo as they were given. The call is
  reached when the macaroon file can be read, which is what sending a request
  presupposes.
\<close>

theorem add_invoice_one_post:
  assumes "fs e (macaroon_path self) = Content mac"
  shows "http_calls (trace (snd (add_invoice e self amount memo w))) =
    http_calls (trace w) @
      [\<lparr>req_method = ''POST'', req_url = api_endpoint self @ ''/v1/invoices'',
        req_json = Some (JObj [(''value'', JInt amount), (''memo'', JStr memo)]),
        req_headers = [(''Grpc-Metadata-macaroon'', bytes_hex mac)],
        req_verify = cert_path self\<rparr>]"
  by (simp add: add_invoice_def request_readable [OF assms] Let_def trace_except http_calls_append
      split: http_outcome.splits option.splits sum.splits)

theorem add_invoice_one_post_witness:
  "fs (test_env files_ok net_mock) (macaroon_path (LNDClient (test_env files_ok net_mock)))
     = Content [0x02, 0x01, 0xAB]
   \<and> http_calls (trace (snd (add_invoice (test_env files_ok net_mock)
         (LNDClient (test_env files_ok net_mock)) (- 5) [] (world0 [])))) =
      [\<lparr>req_method = ''POST'', req_url = ''https://127.0.0.1:8083/v1/invoices'',
        req_json = Some (JObj [(''value'', JInt (- 5)), (''memo'', JStr [])]),
        req_headers = [(''Grpc-Metadata-macaroon'', ''0201ab'')],
        req_verify = ''/opt/lnd/py/../config/tls.cert''\<rparr>]"
proof -
  let ?e = "test_env files_ok net_mock"
  have f: "fs ?e (macaroon_path (LNDClient ?e)) = Content [0x02, 0x01, 0xAB]"
    by (simp only: LNDClient_test_env) (simp add: test_env_def files_ok_def)
  from add_invoice_one_post [OF f, of "- 5" "[]" "world0 []"] f show ?thesis
    by (simp add: LNDClient_test_env world0_def bytes_hex_def hex2_def)
qed

text \<open>
  \<^bold>\<open>C3\<close>. When \<open>requests.request\<close> fails at the transport level, the claim is that
  the connectivity error reaches the caller of \<open>_request\<close>. It does not: the handler
  reads the variable \<open>response\<close>, which was never assigned, and the caller gets an
  \<open>UnboundLocalError\<close> in place of the connectivity error.
\<close>

theorem request_transport_failure:
  assumes "fs e (macaroon_path self) = Content mac"
    and "net e (length (http_calls (trace w)))
           \<lparr>req_method = method, req_url = api_endpoint self @ endpoint, req_json = data,
            req_headers = [(''Grpc-Metadata-macaroon'', bytes_hex mac)],
            req_verify = cert_path self\<rparr> = Raises x"
    and "is_connectivity_error x"
  shows "fst (request e self method endpoint data w) = Inl unbound_response
         \<and> fst (request e self method endpoint data w) \<noteq> Inl x
         \<and> \<not> is_connectivity_error unbound_response"
proof -
  from assms(3) have "is_RequestException x" by (cases x) auto
  moreover from assms(3) have "unbound_response \<noteq> x"
    by (cases x) (auto simp: unbound_response_def)
  ultimately show ?thesis
    by (simp add: request_readable [OF assms(1)] assms(2) Let_def except_RequestException_def)
       (simp add: unbound_response_def)
qed

theorem request_transport_failure_witness:
  "fst (request (test_env files_ok (net_raises (Exc ConnectionError ''Connection refused''))) (LNDClient (test_env files_ok (net_raises (Exc ConnectionError ''Connection refused''))))
          ''GET'' ''/v1/getinfo'' None (world0 []))
     = Inl unbound_response
   \<and> is_connectivity_error (Exc ConnectionError ''Connection refused'')"
proof -
  let ?e = "test_env files_ok (net_raises (Exc ConnectionError ''Connection refused''))"
  have f: "fs ?e (macaroon_path (LNDClient ?e)) = Content [0x02, 0x01, 0xAB]"
    by (simp add: LNDClient_test_env) (simp add: test_env_def files_ok_def)
  have n: "net ?e n r = Raises (Exc ConnectionError ''Connection refused'')" for n r
    by (simp add: test_env_def net_raises_def)
  have c: "is_connectivity_error (Exc ConnectionError ''Connection refused'')" by simp
  from request_transport_failure [OF f n c] c show ?thesis by simp
qed

text \<open>
  \<^bold>\<open>C4\<close>, as amended. For every response with a status from 400 to 599,
  \<open>_request\<close> raises an \<open>HTTPError\<close> to its caller and returns no value, after it
  has written the error and the text of the response body to standard error.
\<close>

theorem request_http_error:
  assumes "fs e (macaroon_path self) = Content mac"
    and "net e (length (http_calls (trace w)))
           \<lparr>req_method = method, req_url = api_endpoint self @ endpoint, req_json = data,
            req_headers = [(''Grpc-Metadata-macaroon'', bytes_hex mac)],
            req_verify = cert_path self\<rparr> = Responds r"
    and "400 \<le> status_code r" and "status_code r < 600"
    and "m = str_nat (status_code r)
           @ (if status_code r < 500 then '' Client Error: '' else '' Server Error: '')
           @ reason r @ '' for url: '' @ resp_url r"
  shows "fst (request e self method endpoint data w) = Inl (Exc HTTPError m)
         \<and> stderr (snd (request e self method endpoint data w)) =
             stderr w @ ''Error connecting to LND: '' @ m @ nl
               @ ''Response: '' @ resp_text r @ nl"
proof -
  from assms(3,4,5) have m: "raise_for_status r = Some (Exc HTTPError m)"
    by (simp add: raise_for_status_def)
  show ?thesis
    by (simp add: request_readable [OF assms(1)] assms(2) m Let_def except_RequestException_def
          print_err_def)
qed

theorem request_http_error_witness:
  "fst (request (test_env files_ok (net_status 404 ''Not Found''))
          (LNDClient (test_env files_ok (net_status 404 ''Not Found'')))
          ''GET'' ''/v1/getinfo'' None (world0 []))
     = Inl (Exc HTTPError ''404 Client Error: Not Found for url: https://127.0.0.1:8083/v1/getinfo'')
   \<and> lines_of (stderr (snd (request (test_env files_ok (net_status 404 ''Not Found''))
          (LNDClient (test_env files_ok (net_status 404 ''Not Found'')))
          ''GET'' ''/v1/getinfo'' None (world0 []))))
     = [''Error connecting to LND: 404 Client Error: Not Found for url: https://127.0.0.1:8083/v1/getinfo'',
        ''Response: {}'']"
proof -
  let ?e = "test_env files_ok (net_status 404 ''Not Found'')"
  let ?r = "\<lparr>status_code = 404, reason = ''Not Found'',
              resp_url = ''https://127.0.0.1:8083/v1/getinfo'',
              resp_text = ''{}'', json_result = Inr (JObj [])\<rparr>"
  have f: "fs ?e (macaroon_path (LNDClient ?e)) = Content [0x02, 0x01, 0xAB]"
    by (simp only: LNDClient_test_env) (simp add: test_env_def files_ok_def)
  have n: "net ?e (length (http_calls (trace (world0 []))))
            \<lparr>req_method = ''GET'', req_url = api_endpoint (LNDClient ?e) @ ''/v1/getinfo'',
             req_json = None,
             req_headers = [(''Grpc-Metadata-macaroon'', bytes_hex [0x02, 0x01, 0xAB])],
             req_verify = cert_path (LNDClient ?e)\<rparr> = Responds ?r"
    by (simp only: LNDClient_test_env) (simp add: test_env_def net_status_def)
  have s: "str_nat 404 = ''404''"
    by (simp add: str_nat.simps)
  have m: "''404 Client Error: Not Found for url: https://127.0.0.1:8083/v1/getinfo'' =
      str_nat (status_code ?r)
        @ (if status_code ?r < 500 then '' Client Error: '' else '' Server Error: '')
        @ reason ?r @ '' for url: '' @ resp_url ?r"
    by (simp add: s)
  from request_http_error [OF f n _ _ m] show ?thesis
    by (simp add: world0_def lines_of_def nl_def)
qed

text \<open>The claim as stated speaks of every status outside 200 to 299. In this run the
  node answers with status 302 and the JSON body \<open>{}\<close>: \<open>raise_for_status\<close> does
  not raise for it, the decoded body is returned and nothing is written to standard
  error.\<close>

theorem request_redirect_status_returns:
  "request (test_env files_ok (net_status 302 ''Found''))
      (LNDClient (test_env files_ok (net_status 302 ''Found'')))
      ''POST'' ''/v1/invoices'' (Some (JObj [(''value'', JInt 1000), (''memo'', JStr ''test'')]))
      (world0 [])
   = (Inr (JObj []),
      \<lparr>stdout = [], stderr = [], stdin = [],
       trace = [FileOpen ''/opt/lnd/py/../config/admin.macaroon'',
                HttpCall \<lparr>req_method = ''POST'', req_url = ''https://127.0.0.1:8083/v1/invoices'',
                  req_json = Some (JObj [(''value'', JInt 1000), (''memo'', JStr ''test'')]),
                  req_headers = [(''Grpc-Metadata-macaroon'', ''0201ab'')],
                  req_verify = ''/opt/lnd/py/../config/tls.cert''\<rparr>]\<rparr>)"
  by (simp only: LNDClient_test_env)
     (simp add: request_def get_headers_def test_env_def files_ok_def net_status_def
        raise_for_status_def world0_def bytes_hex_def hex2_def Let_def)

text \<open>
  \<^bold>\<open>C5\<close>, as amended. For every request issued through the client, if the macaroon
  file is missing or unreadable, the operation fails with a filesystem error before
  any HTTP call is made, and the failure reaches the caller as it is: nothing is
  printed and nothing is retried. The certificate file is never opened by the
  client; its path is handed to the HTTP call.
\<close>

theorem request_macaroon_unreadable:
  assumes "fs e (macaroon_path self) = Missing \<or> fs e (macaroon_path self) = Unreadable"
  shows "\<exists>x. request e self method endpoint data w =
              (Inl x, w\<lparr>trace := trace w @ [FileOpen (macaroon_path self)]\<rparr>)
           \<and> is_filesystem_error x
           \<and> http_calls (trace (snd (request e self method endpoint data w)))
               = http_calls (trace w)"
  using assms by (auto simp: request_unreadable http_calls_append)

theorem request_macaroon_unreadable_witness:
  "fs (test_env files_no_macaroon net_mock)
      (macaroon_path (LNDClient (test_env files_no_macaroon net_mock))) = Missing
   \<and> request (test_env files_no_macaroon net_mock) (LNDClient (test_env files_no_macaroon net_mock))
        ''GET'' ''/v1/getinfo'' None (world0 [])
     = (Inl (Exc FileNotFoundError
          (''[Errno 2] No such file or directory: '' @ quoted ''/opt/lnd/py/../config/admin.macaroon'')),
        \<lparr>stdout = [], stderr = [], stdin = [],
         trace = [FileOpen ''/opt/lnd/py/../config/admin.macaroon'']\<rparr>)"
proof -
  let ?e = "test_env files_no_macaroon net_mock"
  have f: "fs ?e (macaroon_path (LNDClient ?e)) = Missing"
    by (simp only: LNDClient_test_env) (simp add: test_env_def files_no_macaroon_def)
  from request_macaroon_unreadable [OF disjI1 [OF f], of "''GET''" "''/v1/getinfo''" None "world0 []"]
  obtain x where x: "request ?e (LNDClient ?e) ''GET'' ''/v1/getinfo'' None (world0 []) =
      (Inl x, world0 []\<lparr>trace := trace (world0 []) @ [FileOpen (macaroon_path (LNDClient ?e))]\<rparr>)"
    by blast
  have "fst (request ?e (LNDClient ?e) ''GET'' ''/v1/getinfo'' None (world0 [])) =
      Inl (Exc FileNotFoundError
          (''[Errno 2] No such file or directory: '' @ quoted ''/opt/lnd/py/../config/admin.macaroon''))"
    by (simp only: LNDClient_test_env)
       (simp add: request_def get_headers_def test_env_def files_no_macaroon_def Let_def
          repr_str_def repr_char_def quoted_def)
  with x f show ?thesis
    by (simp add: LNDClient_test_env world0_def)
qed

text \<open>The claim as stated covers the certificate file as well. With a readable
  macaroon and a certificate file that cannot be read, the client opens the macaroon
  only and goes on to the HTTP call with the certificate's path; the failure then
  comes out of that call (here as the library's TLS error, which the handler turns
  into an \<open>UnboundLocalError\<close>), not as a filesystem error before it.\<close>

theorem request_cert_unreadable_calls_http:
  "fs (test_env files_cert_unreadable (net_raises (Exc SSLError ''certificate verify failed'')))
      (cert_path (LNDClient (test_env files_cert_unreadable
         (net_raises (Exc SSLError ''certificate verify failed''))))) = Unreadable
   \<and> request (test_env files_cert_unreadable (net_raises (Exc SSLError ''certificate verify failed'')))
        (LNDClient (test_env files_cert_unreadable
           (net_raises (Exc SSLError ''certificate verify failed''))))
        ''GET'' ''/v1/getinfo'' None (world0 [])
     = (Inl unbound_response,
        \<lparr>stdout = [],
         stderr = ''Error connecting to LND: certificate verify failed'' @ nl,
         stdin = [],
         trace = [FileOpen ''/opt/lnd/py/../config/admin.macaroon'',
                  HttpCall \<lparr>req_method = ''GET'', req_url = ''https://127.0.0.1:8083/v1/getinfo'',
                    req_json = None,
                    req_headers = [(''Grpc-Metadata-macaroon'', ''0201ab'')],
                    req_verify = ''/opt/lnd/py/../config/tls.cert''\<rparr>]\<rparr>)
   \<and> \<not> is_filesystem_error unbound_response"
  by (simp only: LNDClient_test_env)
     (simp add: request_def get_headers_def test_env_def files_cert_unreadable_def net_raises_def
        except_RequestException_def print_err_def unbound_response_def
        world0_def bytes_hex_def hex2_def Let_def)

section \<open>The JSON tool\<close>

text \<open>
  \<^bold>\<open>C2\<close>. With the subcommand \<open>invoice\<close> and no \<open>--amount\<close>, whatever the memo and
  the environment, the program prints one JSON object with the key \<open>error\<close> to
  standard output and exits with status 1; the trace of files opened and HTTP calls
  made is left as it was, so no credential file is read and no request is sent.
\<close>

theorem invoice_without_amount:
  "lnd_client_main e \<lparr>command = Invoice, cli_amount = None, cli_memo = m\<rparr> w =
     (Exit 1, w\<lparr>stdout := stdout w
        @ json_dumps (JObj [(''error'', JStr ''Amount is required for invoice'')]) @ nl\<rparr>)
   \<and> trace (snd (lnd_client_main e \<lparr>command = Invoice, cli_amount = None, cli_memo = m\<rparr> w))
       = trace w
   \<and> json_dumps (JObj [(''error'', JStr ''Amount is required for invoice'')]) =
       ''{'' @ [CHR 0x22] @ ''error'' @ [CHR 0x22] @ '': ''
         @ [CHR 0x22] @ ''Amount is required for invoice'' @ [CHR 0x22] @ ''}''"
  by (simp add: lnd_client_main_def cli_try_def not_amount_def print_out_def
      json_string_def json_esc_def)

text \<open>
  \<^bold>\<open>C10\<close>. With the subcommand \<open>invoice\<close> and \<open>--amount 0\<close> the program does
  what it does without \<open>--amount\<close>: it prints the JSON error object, exits with
  status 1 and sends no invoice request.
\<close>

theorem invoice_amount_zero:
  "lnd_client_main e \<lparr>command = Invoice, cli_amount = Some 0, cli_memo = m\<rparr> w =
     lnd_client_main e \<lparr>command = Invoice, cli_amount = None, cli_memo = m\<rparr> w
   \<and> lnd_client_main e \<lparr>command = Invoice, cli_amount = Some 0, cli_memo = m\<rparr> w =
     (Exit 1, w\<lparr>stdout := stdout w
        @ json_dumps (JObj [(''error'', JStr ''Amount is required for invoice'')]) @ nl\<rparr>)
   \<and> http_calls (trace (snd (lnd_client_main e
         \<lparr>command = Invoice, cli_amount = Some 0, cli_memo = m\<rparr> w))) = http_calls (trace w)"
  by (simp add: lnd_client_main_def cli_try_def not_amount_def print_out_def)

section \<open>The interactive tool\<close>

lemma str_int_1000: "str_int 1000 = ''1000''"
  by (simp add: str_int_def str_nat.simps)

lemma r_hash_example: "b64decode (JStr ''AAECAw=='') = Inr [0, 1, 2, 3]"
  by (simp add: a2b_base64_def b64idx_def)

lemma hex_example: "bytes_hex [0, 1, 2, 3] = ''00010203''"
  by (simp add: bytes_hex_def hex2_def)

text \<open>
  \<^bold>\<open>C7\<close>. The example of the specification: the macaroon can be read, the node
  answers the info query with \<open>{"alias": "testnode", "version": "0.17"}\<close> and the
  invoice request for 1000 sats with memo \<open>test\<close> with
  \<open>{"payment_request": "lnbc1...", "r_hash": "AAECAw=="}\<close>. Run with
  \<open>--amount 1000 --memo test\<close>, the tool exits with status 0 and prints the line
  \<open>Connected to LND node: testnode\<close> and, further down, the hash in hexadecimal,
  \<open>00010203\<close>. The whole output is given.
\<close>

theorem create_invoice_example:
  assumes mac: "fs e (macaroon_path (LNDClient e)) = Content mac"
    and info: "net e 0
           \<lparr>req_method = ''GET'', req_url = api_endpoint (LNDClient e) @ ''/v1/getinfo'',
            req_json = None,
            req_headers = [(''Grpc-Metadata-macaroon'', bytes_hex mac)],
            req_verify = cert_path (LNDClient e)\<rparr> = Responds r1"
    and r1: "raise_for_status r1 = None"
      "json_result r1 = Inr (JObj [(''alias'', JStr ''testnode''), (''version'', JStr ''0.17'')])"
    and inv: "net e 1
           \<lparr>req_method = ''POST'', req_url = api_endpoint (LNDClient e) @ ''/v1/invoices'',
            req_json = Some (JObj [(''value'', JInt 1000), (''memo'', JStr ''test'')]),
            req_headers = [(''Grpc-Metadata-macaroon'', bytes_hex mac)],
            req_verify = cert_path (LNDClient e)\<rparr> = Responds r2"
    and r2: "raise_for_status r2 = None"
      "json_result r2 =
         Inr (JObj [(''payment_request'', JStr ''lnbc1...''), (''r_hash'', JStr ''AAECAw=='')])"
  shows "fst (create_invoice e \<lparr>amount_arg = Some 1000, memo_arg = Some ''test''\<rparr> (world0 ins))
           = Exit 0
     \<and> lines_of (stdout (snd (create_invoice e
            \<lparr>amount_arg = Some 1000, memo_arg = Some ''test''\<rparr> (world0 ins)))) =
         [''Connected to LND node: testnode'',
          ''Creating invoice for 1000 sats...'',
          [],
          ''=== INVOICE CREATED ==='',
          ''Payment Request: lnbc1...'',
          ''R Hash (hex):    00010203'',
          ''Add Index:       N/A'',
          ''======================='']"
proof -
  have g: "get_info e (LNDClient e) (world0 ins) =
      (Inr (JObj [(''alias'', JStr ''testnode''), (''version'', JStr ''0.17'')]),
       (world0 ins)\<lparr>trace := [FileOpen (macaroon_path (LNDClient e)),
          HttpCall \<lparr>req_method = ''GET'', req_url = api_endpoint (LNDClient e) @ ''/v1/getinfo'',
            req_json = None,
            req_headers = [(''Grpc-Metadata-macaroon'', bytes_hex mac)],
            req_verify = cert_path (LNDClient e)\<rparr>]\<rparr>)"
    using info r1 by (simp add: get_info_def request_readable [OF mac] Let_def world0_def)
  have a: "trace w = [FileOpen p, HttpCall q] \<Longrightarrow>
      add_invoice e (LNDClient e) 1000 ''test'' w =
      (Inr (JObj [(''payment_request'', JStr ''lnbc1...''), (''r_hash'', JStr ''AAECAw=='')]),
       w\<lparr>trace := trace w @ [FileOpen (macaroon_path (LNDClient e)),
          HttpCall \<lparr>req_method = ''POST'', req_url = api_endpoint (LNDClient e) @ ''/v1/invoices'',
            req_json = Some (JObj [(''value'', JInt 1000), (''memo'', JStr ''test'')]),
            req_headers = [(''Grpc-Metadata-macaroon'', bytes_hex mac)],
            req_verify = cert_path (LNDClient e)\<rparr>]\<rparr>)" for w p q
    using inv r2 by (simp add: add_invoice_def request_readable [OF mac] Let_def)
  show ?thesis
    by (simp add: create_invoice_def main_def ask_amount_def ask_memo_def main_try_def g Let_def
          print_out_def a str_int_1000 r_hash_example hex_example)
       (simp add: a2b_base64_def b64idx_def hex_example print_out_def lines_of_def nl_def
          world0_def)
qed

theorem create_invoice_example_witness:
  "fst (create_invoice (test_env files_ok net_mock)
          \<lparr>amount_arg = Some 1000, memo_arg = Some ''test''\<rparr> (world0 [])) = Exit 0
   \<and> lines_of (stdout (snd (create_invoice (test_env files_ok net_mock)
          \<lparr>amount_arg = Some 1000, memo_arg = Some ''test''\<rparr> (world0 [])))) =
         [''Connected to LND node: testnode'',
          ''Creating invoice for 1000 sats...'',
          [],
          ''=== INVOICE CREATED ==='',
          ''Payment Request: lnbc1...'',
          ''R Hash (hex):    00010203'',
          ''Add Index:       N/A'',
          ''======================='']"
proof -
  let ?e = "test_env files_ok net_mock"
  have f: "fs ?e (macaroon_path (LNDClient ?e)) = Content [0x02, 0x01, 0xAB]"
    by (simp only: LNDClient_test_env) (simp add: test_env_def files_ok_def)
  have i: "net ?e 0
           \<lparr>req_method = ''GET'', req_url = api_endpoint (LNDClient ?e) @ ''/v1/getinfo'',
            req_json = None,
            req_headers = [(''Grpc-Metadata-macaroon'', bytes_hex [0x02, 0x01, 0xAB])],
            req_verify = cert_path (LNDClient ?e)\<rparr>
       = Responds (ok_response (JObj [(''alias'', JStr ''testnode''), (''version'', JStr ''0.17'')]))"
    by (simp add: test_env_def net_mock_def)
  have p: "net ?e 1
           \<lparr>req_method = ''POST'', req_url = api_endpoint (LNDClient ?e) @ ''/v1/invoices'',
            req_json = Some (JObj [(''value'', JInt 1000), (''memo'', JStr ''test'')]),
            req_headers = [(''Grpc-Metadata-macaroon'', bytes_hex [0x02, 0x01, 0xAB])],
            req_verify = cert_path (LNDClient ?e)\<rparr>
       = Responds (ok_response (JObj [(''payment_request'', JStr ''lnbc1...''),
                                      (''r_hash'', JStr ''AAECAw=='')]))"
    by (simp add: test_env_def net_mock_def)
  have ok: "raise_for_status (ok_response j) = None" "json_result (ok_response j) = Inr j" for j
    by (simp_all add: ok_response_def raise_for_status_def)
  from create_invoice_example [OF f i ok p ok, of "[]"] show ?thesis .
qed




section \<open>QR rendering\<close>

text \<open>What \<open>generate_qr_base64\<close> adds to the image the libraries draw is the base64
  encoding: the text it returns decodes to exactly the bytes the image writer
  produced. What those bytes are is the libraries' matter.\<close>

lemma generate_qr_base64_decodes:
  assumes "generate_qr_base64 e d = Inr s"
  shows "\<exists>png. qr_png e d = Inr png \<and> b64decode (JStr s) = Inr png"
proof (cases "qr_png e d")
  case (Inl x)
  with assms show ?thesis by (simp add: generate_qr_base64_def)
next
  case (Inr png)
  with assms have "s = b64encode png" by (simp add: generate_qr_base64_def)
  with Inr show ?thesis by (simp only: b64decode_b64encode) simp
qed

end
